theory Spec2Isabelle
  imports Complex_Main "HOL-Library.Word"
begin

unbundle bit_operations_syntax

section \<open>Transfer Matrix Method: the model\<close>

text \<open>
  The library computes with \<^verbatim>\<open>double\<close> and \<^verbatim>\<open>std::complex<double>\<close>. The
  model idealises both: a finite double is a \<^typ>\<open>real\<close>, a finite complex double a
  \<^typ>\<open>complex\<close>, and arithmetic on them is exact (no rounding, no overflow, no
  underflow). What exact arithmetic cannot hide is kept: a division by zero and the
  square root of a negative number give an infinity or a NaN, and a call that meets one
  has the outcome \<open>NonFinite\<close>. Undefined behaviour of C++ (an unchecked read past the
  end of a vector, a conversion of a double that the target integer type cannot hold)
  is the outcome \<open>Undefined\<close>. \<^verbatim>\<open>size_t\<close> is a 64-bit word.
\<close>

subsection \<open>Outcomes\<close>

text \<open>
  The error kinds are the four the specification names. No function of the library
  has a \<^verbatim>\<open>throw\<close>: \<open>Raised\<close> is the outcome that a checked function would
  have, and none of the definitions below produces it.
\<close>

datatype error =
    InvalidRefractiveIndexProduct
  | SingularScatteringMatrix
  | InvalidPeriodCount
  | SampleIndexOutOfRange

text \<open>
  \<open>Returns v\<close>: the call returns the finite value \<open>v\<close>.
  \<open>NonFinite\<close>: the call returns, and a NaN or an infinity arose on the way to the
  value it returns; IEEE arithmetic is not followed beyond that point.
  \<open>Undefined\<close>: the call has undefined behaviour.
  \<open>Raised e\<close>: the call throws \<open>e\<close>.
\<close>

datatype 'a outcome = Returns 'a | NonFinite | Undefined | Raised error

definition and_then :: "'a outcome \<Rightarrow> ('a \<Rightarrow> 'b outcome) \<Rightarrow> 'b outcome" where
  "and_then x f =
     (case x of
        Returns v \<Rightarrow> f v
      | NonFinite \<Rightarrow> NonFinite
      | Undefined \<Rightarrow> Undefined
      | Raised e \<Rightarrow> Raised e)"

subsection \<open>Matrix algebra (tmm.h, on the damm library)\<close>

text \<open>
  A matrix is \<^verbatim>\<open>std::complex<double>**\<close> with two rows of two entries, row-major:
  \<open>Mat S00 S01 S10 S11\<close>.
\<close>

datatype cmat = Mat (m00: complex) (m01: complex) (m10: complex) (m11: complex)

text \<open>
  The three operations below belong to the damm library, which the sources include
  (\<^verbatim>\<open>damm.h\<close>) and do not contain.
\<close>

text \<open>
  Modelled from the spec: \<^verbatim>\<open>damm::identity\<close> is missing from the sources; the
  specification gives it as the 2x2 identity.
\<close>

definition identity :: cmat where
  "identity = Mat 1 0 0 1"

text \<open>
  Modelled from the spec: \<^verbatim>\<open>damm::zeros\<close> is missing from the sources; it fills a
  matrix with zeros.
\<close>

definition zeros :: cmat where
  "zeros = Mat 0 0 0 0"

text \<open>
  Modelled from the spec: \<^verbatim>\<open>damm::multiply\<close> is missing from the sources; the
  specification gives it as the standard matrix product. Every call of it in the
  sources writes into an output that \<^verbatim>\<open>damm::zeros\<close> has cleared just before, and
  the value here is that output.
\<close>

definition multiply :: "cmat \<Rightarrow> cmat \<Rightarrow> cmat" where
  "multiply A B =
     Mat (m00 A * m00 B + m01 A * m10 B) (m00 A * m01 B + m01 A * m11 B)
         (m10 A * m00 B + m11 A * m10 B) (m10 A * m01 B + m11 A * m11 B)"

text \<open>
  The loop of \<^verbatim>\<open>matrix_power\<close> (tmm.h, lines 155 to 180): while \<open>N > 0\<close>, multiply
  the result by the base when the lowest bit of \<open>N\<close> is set, shift \<open>N\<close> right by one,
  and square the base when the shifted \<open>N\<close> is still positive.
\<close>

function power_loop :: "cmat \<Rightarrow> cmat \<Rightarrow> 64 word \<Rightarrow> cmat" where
  "power_loop result base N =
     (if 0 < N then
        power_loop (if N AND 1 \<noteq> 0 then multiply result base else result)
                   (if 0 < drop_bit 1 N then multiply base base else base)
                   (drop_bit 1 N)
      else result)"
  by pat_completeness auto
termination
  by (relation "measure (\<lambda>(result, base, N). unat N)")
     (simp_all add: drop_bit_eq_div unat_div word_less_nat_alt)

declare power_loop.simps [simp del]

text \<open>
  \<^verbatim>\<open>matrix_power(T, TN, N)\<close>: the result starts as the identity; for \<open>N = 0\<close> it is
  copied out at once and \<open>T\<close> is never read.
\<close>

definition matrix_power :: "cmat \<Rightarrow> 64 word \<Rightarrow> cmat" where
  "matrix_power T N = (if N = 0 then identity else power_loop identity T N)"

text \<open>The mathematical power, by which the loop is specified.\<close>

primrec mpow :: "cmat \<Rightarrow> nat \<Rightarrow> cmat" where
  "mpow T 0 = identity"
| "mpow T (Suc n) = multiply T (mpow T n)"

subsection \<open>IEEE operations that leave the finite numbers\<close>

text \<open>
  On finite operands and in exact arithmetic, a quotient is finite unless the divisor
  is zero (then it is an infinity, or a NaN for \<open>0/0\<close>), and \<^verbatim>\<open>std::sqrt\<close> is
  finite unless its argument is negative (then it is a NaN).
\<close>

definition double_div :: "real \<Rightarrow> real \<Rightarrow> real outcome" where
  "double_div x y = (if y = 0 then NonFinite else Returns (x / y))"

definition double_sqrt :: "real \<Rightarrow> real outcome" where
  "double_sqrt x = (if x < 0 then NonFinite else Returns (sqrt x))"

definition complex_div :: "complex \<Rightarrow> complex \<Rightarrow> complex outcome" where
  "complex_div x y = (if y = 0 then NonFinite else Returns (x / y))"

subsection \<open>Layer models (class TMM, tmm.h)\<close>

text \<open>\<^verbatim>\<open>TMM::beta(neff, wavelength, loss)\<close>.\<close>

definition beta :: "real \<Rightarrow> real \<Rightarrow> real \<Rightarrow> complex outcome" where
  "beta neff wavelength loss =
     and_then (double_div (2 * pi) wavelength) (\<lambda>k0.
       let alpha = loss / 2 in Returns (Complex (k0 * neff) (- alpha)))"

text \<open>\<^verbatim>\<open>TMM::homogeneous_layer(P, wavelength, length, neff, loss)\<close>; the matrix \<open>P\<close> it fills is the value.\<close>

definition homogeneous_layer :: "real \<Rightarrow> real \<Rightarrow> real \<Rightarrow> real \<Rightarrow> cmat outcome" where
  "homogeneous_layer wavelength len neff loss =
     and_then (beta neff wavelength loss) (\<lambda>b.
       let phase = b * of_real len in
       Returns (Mat (exp (Complex 0 1 * phase)) (Complex 0 0)
                    (Complex 0 0) (exp (Complex 0 (- 1) * phase))))"

text \<open>\<^verbatim>\<open>TMM::index_step(T, n1, n2)\<close>: no check of \<open>n1 * n2\<close> precedes the square root.\<close>

definition index_step :: "real \<Rightarrow> real \<Rightarrow> cmat outcome" where
  "index_step n1 n2 =
     and_then (double_sqrt (n1 * n2)) (\<lambda>s.
     and_then (double_div (n1 + n2) (2 * s)) (\<lambda>a.
     and_then (double_div (n1 - n2) (2 * s)) (\<lambda>b.
       Returns (Mat (of_real a) (of_real b) (of_real b) (of_real a)))))"

subsection \<open>Scattering coefficients (tmm.h)\<close>

text \<open>
  \<^verbatim>\<open>scattering_coefficients_db(S, R, T)\<close>: the pair \<open>(R, T)\<close> of its two output
  parameters. \<^verbatim>\<open>std::pow(x, 2.0)\<close> is the square. Nothing compares \<open>S[0][0]\<close> with
  zero before the two divisions.
\<close>

definition scattering_coefficients_db :: "cmat \<Rightarrow> (real \<times> real) outcome" where
  "scattering_coefficients_db S =
     (let S00 = m00 S; S10 = m10 S in
      and_then (complex_div S10 S00) (\<lambda>r.
      and_then (complex_div 1 S00) (\<lambda>t.
        Returns ((cmod r)\<^sup>2, (cmod t)\<^sup>2))))"

subsection \<open>Bragg grating (bragg.h, bragg.cc)\<close>

text \<open>The fields \<^verbatim>\<open>_period\<close>, \<^verbatim>\<open>_duty_cycle\<close> and \<^verbatim>\<open>_N\<close>, all doubles; the constructor stores its arguments unchecked.\<close>

record bragg =
  bragg_period :: real
  bragg_duty_cycle :: real
  bragg_N :: real

definition Bragg :: "real \<Rightarrow> real \<Rightarrow> real \<Rightarrow> bragg" where
  "Bragg period duty_cycle N =
     \<lparr>bragg_period = period, bragg_duty_cycle = duty_cycle, bragg_N = N\<rparr>"

text \<open>\<^verbatim>\<open>Bragg::transfer_matrix\<close>: \<open>Tp = ((T_11 * T_12) * T_22) * T_21\<close>.\<close>

definition transfer_matrix :: "bragg \<Rightarrow> real \<Rightarrow> real \<Rightarrow> real \<Rightarrow> real \<Rightarrow> cmat outcome" where
  "transfer_matrix g wavelength n1 n2 loss =
     (let l1 = bragg_period g * bragg_duty_cycle g;
          l2 = bragg_period g * (1 - bragg_duty_cycle g) in
      and_then (homogeneous_layer wavelength l1 n1 loss) (\<lambda>T_11.
      and_then (index_step n1 n2) (\<lambda>T_12.
      and_then (homogeneous_layer wavelength l2 n2 loss) (\<lambda>T_22.
      and_then (index_step n2 n1) (\<lambda>T_21.
        Returns (multiply (multiply (multiply T_11 T_12) T_22) T_21))))))"

text \<open>
  The implicit conversion of the double \<^verbatim>\<open>_N\<close> to the \<^verbatim>\<open>size_t\<close> parameter of
  \<^verbatim>\<open>matrix_power\<close>: the fractional part is discarded (truncation toward zero), and
  the behaviour is undefined when the truncated value is not a value of \<^verbatim>\<open>size_t\<close>.
\<close>

definition size_t_of_double :: "real \<Rightarrow> 64 word outcome" where
  "size_t_of_double x =
     (if - 1 < x \<and> x < 2 ^ 64
      then Returns (if x < 0 then 0 else word_of_int \<lfloor>x\<rfloor>)
      else Undefined)"

text \<open>
  \<^verbatim>\<open>matrix_power\<close> on a matrix that holds a NaN or an infinity: for \<open>N = 0\<close> the
  identity is copied out and the matrix is not read; otherwise the first product
  reads it, and sums and products of IEEE numbers keep a non-finite operand
  non-finite.
\<close>

definition matrix_power_non_finite :: "64 word \<Rightarrow> cmat outcome" where
  "matrix_power_non_finite N = (if N = 0 then Returns identity else NonFinite)"

text \<open>\<^verbatim>\<open>Bragg::scattering_matrix\<close>: the period matrix, then \<^verbatim>\<open>matrix_power(Tp, T, _N)\<close>.\<close>

definition scattering_matrix :: "bragg \<Rightarrow> real \<Rightarrow> real \<Rightarrow> real \<Rightarrow> real \<Rightarrow> cmat outcome" where
  "scattering_matrix g wavelength n1 n2 loss =
     (case transfer_matrix g wavelength n1 n2 loss of
        Returns Tp \<Rightarrow>
          and_then (size_t_of_double (bragg_N g)) (\<lambda>n. Returns (matrix_power Tp n))
      | NonFinite \<Rightarrow>
          and_then (size_t_of_double (bragg_N g)) matrix_power_non_finite
      | Undefined \<Rightarrow> Undefined
      | Raised e \<Rightarrow> Raised e)"

text \<open>\<^verbatim>\<open>Bragg::scattering_coefficients\<close>: it returns \<^verbatim>\<open>std::make_tuple(R, T)\<close>.\<close>

definition scattering_coefficients ::
    "bragg \<Rightarrow> real \<Rightarrow> real \<Rightarrow> real \<Rightarrow> real \<Rightarrow> (real \<times> real) outcome" where
  "scattering_coefficients g wavelength n1 n2 loss =
     and_then (scattering_matrix g wavelength n1 n2 loss) scattering_coefficients_db"

subsection \<open>Compact model library (cml.h)\<close>

text \<open>
  \<^verbatim>\<open>taylor_expansion<O>\<close>: the expansion point and the coefficients. The loop of its
  call operator runs \<open>i\<close> from 1 below \<^verbatim>\<open>coeffs.size()\<close> and folds
  \<^verbatim>\<open>coeffs[i] * std::pow(dx, i)\<close> into \<open>y\<close> with the reduction \<open>O\<close>, here \<open>op\<close>.
\<close>

record taylor_expansion =
  x0 :: real
  coeffs :: "real list"

function taylor_loop :: "(real \<Rightarrow> real \<Rightarrow> real) \<Rightarrow> real list \<Rightarrow> real \<Rightarrow> nat \<Rightarrow> real \<Rightarrow> real" where
  "taylor_loop op cs dx i y =
     (if i < length cs then taylor_loop op cs dx (i + 1) (op y (cs ! i * dx ^ i)) else y)"
  by pat_completeness auto
termination
  by (relation "measure (\<lambda>(op, cs, dx, i, y). length cs - i)") simp_all

declare taylor_loop.simps [simp del]

text \<open>
  The call operator reads \<^verbatim>\<open>coeffs[0]\<close> unchecked: with no coefficient the read is
  past the end of the vector.
\<close>

definition taylor_eval :: "(real \<Rightarrow> real \<Rightarrow> real) \<Rightarrow> taylor_expansion \<Rightarrow> real \<Rightarrow> real outcome" where
  "taylor_eval op t x =
     (let dx = x - x0 t in
      case coeffs t of
        [] \<Rightarrow> Undefined
      | y # _ \<Rightarrow> Returns (taylor_loop op (coeffs t) dx 1 y))"

text \<open>\<^verbatim>\<open>wavelength_model_t = taylor_expansion<std::minus<>>\<close> and \<^verbatim>\<open>width_model_t = taylor_expansion<std::plus<>>\<close>.\<close>

definition wavelength_model_t :: "taylor_expansion \<Rightarrow> real \<Rightarrow> real outcome" where
  "wavelength_model_t = taylor_eval (\<lambda>y z. y - z)"

definition width_model_t :: "taylor_expansion \<Rightarrow> real \<Rightarrow> real outcome" where
  "width_model_t = taylor_eval (\<lambda>y z. y + z)"

text \<open>\<^verbatim>\<open>struct cml\<close>: four optional representations (the field \<^verbatim>\<open>constant\<close> is \<open>cml_constant\<close> here).\<close>

record cml =
  cml_constant :: "real option"
  sampled :: "real list option"
  wavelength_model :: "taylor_expansion option"
  width_model :: "taylor_expansion option"

text \<open>\<^verbatim>\<open>std::vector::operator[]\<close>: unchecked.\<close>

definition vector_at :: "real list \<Rightarrow> nat \<Rightarrow> real outcome" where
  "vector_at xs i = (if i < length xs then Returns (xs ! i) else Undefined)"

text \<open>
  \<^verbatim>\<open>cml::operator()(l, w, i)\<close>: four \<^verbatim>\<open>if\<close> statements in a row, each updating
  \<^verbatim>\<open>prop\<close>, which starts at \<open>0.0\<close>.
\<close>

definition cml_eval :: "cml \<Rightarrow> real \<Rightarrow> real \<Rightarrow> nat \<Rightarrow> real outcome" where
  "cml_eval m l w i =
     (let prop = (case cml_constant m of Some c \<Rightarrow> c | None \<Rightarrow> 0) in
      and_then (case sampled m of Some xs \<Rightarrow> vector_at xs i | None \<Rightarrow> Returns prop) (\<lambda>prop.
      and_then (case wavelength_model m of
                  Some t \<Rightarrow> and_then (wavelength_model_t t l) (\<lambda>y. Returns (prop + y))
                | None \<Rightarrow> Returns prop) (\<lambda>prop.
      and_then (case width_model m of
                  Some t \<Rightarrow> and_then (width_model_t t w) (\<lambda>y. Returns (prop + y))
                | None \<Rightarrow> Returns prop) (\<lambda>prop.
        Returns prop))))"

subsection \<open>Closed forms of the two Taylor models\<close>

text \<open>The value of a wavelength model and of a width model, as sums.\<close>

definition wavelength_term :: "taylor_expansion \<Rightarrow> real \<Rightarrow> real" where
  "wavelength_term t l =
     coeffs t ! 0 - (\<Sum>k = 1..<length (coeffs t). coeffs t ! k * (l - x0 t) ^ k)"

definition width_term :: "taylor_expansion \<Rightarrow> real \<Rightarrow> real" where
  "width_term t w =
     coeffs t ! 0 + (\<Sum>k = 1..<length (coeffs t). coeffs t ! k * (w - x0 t) ^ k)"

text \<open>
  The reads of \<^verbatim>\<open>cml::operator()\<close> stay inside their vectors: the sample index is
  below the number of samples, and a model that is present has a coefficient.
\<close>

definition reads_in_range :: "cml \<Rightarrow> nat \<Rightarrow> bool" where
  "reads_in_range m i =
     ((case sampled m of Some xs \<Rightarrow> i < length xs | None \<Rightarrow> True)
      \<and> (case wavelength_model m of Some t \<Rightarrow> coeffs t \<noteq> [] | None \<Rightarrow> True)
      \<and> (case width_model m of Some t \<Rightarrow> coeffs t \<noteq> [] | None \<Rightarrow> True))"

subsection \<open>The specification's reading of the evaluation\<close>

text \<open>
  \<open>spec_evaluate\<close> follows the words of the specification, not the code: the base is
  the constant if present, else the sample; the wavelength model subtracts its terms of
  order one and higher from the base, and its coefficient of order zero takes the place
  of the base only when there is no constant and no sample; the width model adds
  \<open>\<Sum> coeffs[k] * (w - w0)^k\<close>.
\<close>

definition spec_evaluate :: "cml \<Rightarrow> real \<Rightarrow> real \<Rightarrow> nat \<Rightarrow> real" where
  "spec_evaluate m l w i =
     (let base = (case cml_constant m of
                    Some c \<Rightarrow> Some c
                  | None \<Rightarrow> (case sampled m of Some xs \<Rightarrow> Some (xs ! i) | None \<Rightarrow> None));
          with_wavelength =
            (case wavelength_model m of
               None \<Rightarrow> (case base of Some b \<Rightarrow> b | None \<Rightarrow> 0)
             | Some t \<Rightarrow>
                 (case base of Some b \<Rightarrow> b | None \<Rightarrow> coeffs t ! 0)
                 - (\<Sum>k = 1..<length (coeffs t). coeffs t ! k * (l - x0 t) ^ k))
      in with_wavelength
         + (case width_model m of
              None \<Rightarrow> 0
            | Some t \<Rightarrow> (\<Sum>k = 0..<length (coeffs t). coeffs t ! k * (w - x0 t) ^ k)))"

section \<open>Matrix algebra: the power by repeated squaring\<close>

lemma multiply_assoc: "multiply (multiply A B) C = multiply A (multiply B C)"
  by (simp add: multiply_def algebra_simps)

lemma multiply_identity_left: "multiply identity A = A"
  by (simp add: multiply_def identity_def)

lemma multiply_identity_right: "multiply A identity = A"
  by (simp add: multiply_def identity_def)

lemma mpow_add: "mpow T (a + b) = multiply (mpow T a) (mpow T b)"
  by (induction a) (simp_all add: multiply_identity_left multiply_assoc)

lemma mpow_square: "mpow (multiply T T) n = mpow T (2 * n)"
  by (induction n) (simp_all add: multiply_assoc)

lemma mpow_halve:
  "mpow T n = multiply (if odd n then T else identity) (mpow (multiply T T) (n div 2))"
proof (cases "odd n")
  case True
  then obtain k where k: "n = Suc (2 * k)"
    by (auto elim: oddE)
  then have "n div 2 = k" by simp
  with True k show ?thesis by (simp add: mpow_square)
next
  case False
  then obtain k where k: "n = 2 * k"
    by (auto elim: evenE)
  then have "n div 2 = k" by simp
  with False k show ?thesis by (simp add: mpow_square multiply_identity_left)
qed

lemma unat_halve: "unat (drop_bit 1 (N :: 64 word)) = unat N div 2"
  by (simp add: drop_bit_eq_div unat_div)

lemma word_even_unat: "even (N :: 64 word) = even (unat N)"
  by (simp add: even_iff_mod_2_eq_zero word_eq_iff_unsigned [where ?'a = nat] unat_mod)

lemma lowest_bit_odd: "(N AND 1 \<noteq> 0) = odd (unat (N :: 64 word))"
proof -
  have "(N AND 1 = 0) = even N"
    using even_word_iff [of N] by (simp add: even_word_def)
  then show ?thesis
    by (simp add: word_even_unat)
qed

text \<open>The loop invariant: what is left to do is \<open>base\<close> to the power \<open>N\<close>.\<close>

lemma power_loop_mpow: "power_loop result base N = multiply result (mpow base (unat N))"
proof (induction result base N rule: power_loop.induct)
  case (1 result base N)
  show ?case
  proof (cases "0 < N")
    case False
    then have "N = 0" by (simp add: word_gt_0)
    then show ?thesis
      by (subst power_loop.simps) (simp add: multiply_identity_right)
  next
    case True
    let ?N' = "drop_bit 1 N"
    have step: "power_loop result base N =
        multiply (if N AND 1 \<noteq> 0 then multiply result base else result)
          (mpow (if 0 < ?N' then multiply base base else base) (unat ?N'))"
      using True "1.IH" by (subst power_loop.simps) simp
    have sq: "mpow (if 0 < ?N' then multiply base base else base) (unat ?N')
        = mpow (multiply base base) (unat N div 2)"
      by (cases "0 < ?N'") (simp_all add: unat_halve [symmetric] word_gt_0)
    show ?thesis
      unfolding step sq
      by (subst (2) mpow_halve)
         (simp add: lowest_bit_odd multiply_assoc multiply_identity_left)
  qed
qed

lemma matrix_power_mpow: "matrix_power T N = mpow T (unat N)"
  by (simp add: matrix_power_def power_loop_mpow multiply_identity_left)

lemma unat_size_t: "n < 2 ^ 64 \<Longrightarrow> unat (of_nat n :: 64 word) = n"
  by (simp add: unat_of_nat)

text \<open>
  Claim C1. For every complex 2x2 matrix \<open>T\<close> and all non-negative integers \<open>a\<close> and
  \<open>b\<close> (that \<^verbatim>\<open>size_t\<close> holds together with their sum),
  \<open>matrix_power T (a + b)\<close> is the product of \<open>matrix_power T a\<close> and
  \<open>matrix_power T b\<close>; and \<open>matrix_power T 0\<close> is the identity for every \<open>T\<close>, the
  all-zero matrix included.
\<close>

theorem matrix_power_composition:
  assumes "a + b < 2 ^ 64"
  shows "matrix_power T (of_nat (a + b))
           = multiply (matrix_power T (of_nat a)) (matrix_power T (of_nat b))
         \<and> matrix_power T 0 = identity
         \<and> matrix_power zeros 0 = identity"
proof -
  from assms have "a < 2 ^ 64" and "b < 2 ^ 64" by simp_all
  with assms have "matrix_power T (of_nat (a + b))
      = multiply (matrix_power T (of_nat a)) (matrix_power T (of_nat b))"
    unfolding matrix_power_mpow by (simp only: unat_size_t mpow_add)
  moreover have "matrix_power T 0 = identity" and "matrix_power zeros 0 = identity"
    by (simp_all add: matrix_power_def)
  ultimately show ?thesis by simp
qed

theorem matrix_power_composition_witness:
  "(2::nat) + 3 < 2 ^ 64
   \<and> matrix_power (Mat 1 2 3 4) (of_nat (2 + 3))
       = multiply (matrix_power (Mat 1 2 3 4) (of_nat 2)) (matrix_power (Mat 1 2 3 4) (of_nat 3))
   \<and> matrix_power (Mat 1 2 3 4) 0 = identity
   \<and> matrix_power zeros 0 = identity"
proof -
  have h: "(2::nat) + 3 < 2 ^ 64" by simp
  show ?thesis
    using h matrix_power_composition [OF h, of "Mat 1 2 3 4"] by blast
qed

section \<open>Layer models\<close>

lemma Complex_0_1: "Complex 0 1 = \<i>"
  by (simp add: complex_eq_iff)

lemma Complex_0_m1: "Complex 0 (- 1) = - \<i>"
  by (simp add: complex_eq_iff)

lemma beta_finite:
  "wavelength \<noteq> 0 \<Longrightarrow>
     beta neff wavelength loss =
       Returns (of_real (2 * pi / wavelength * neff) - \<i> * of_real (loss / 2))"
  by (simp add: beta_def double_div_def and_then_def complex_eq_iff)

text \<open>
  Claim C5. For every wavelength \<open>\<lambda> > 0\<close>, length, \<open>neff\<close> and loss,
  \<open>homogeneous_layer\<close> produces the diagonal matrix
  \<open>diag(e^{i \<beta> length}, e^{- i \<beta> length})\<close> with
  \<open>\<beta> = (2 \<pi> / \<lambda>) neff - i (loss / 2)\<close>; both off-diagonal entries are exactly zero;
  and when the loss is zero both diagonal entries have modulus 1.
\<close>

theorem homogeneous_layer_diagonal:
  assumes "0 < wavelength"
  shows "\<exists>P. homogeneous_layer wavelength len neff loss = Returns P
           \<and> P = Mat (exp (\<i> * (of_real (2 * pi / wavelength * neff) - \<i> * of_real (loss / 2)) * of_real len))
                     0 0
                     (exp (- \<i> * (of_real (2 * pi / wavelength * neff) - \<i> * of_real (loss / 2)) * of_real len))
           \<and> m01 P = 0 \<and> m10 P = 0
           \<and> (loss = 0 \<longrightarrow> cmod (m00 P) = 1 \<and> cmod (m11 P) = 1)"
proof -
  from assms have nz: "wavelength \<noteq> 0" by simp
  show ?thesis
    by (simp add: homogeneous_layer_def beta_finite [OF nz] and_then_def Let_def
        Complex_0_1 Complex_0_m1 zero_complex.code mult.assoc norm_exp_eq_Re)
qed

text \<open>The lossless layer of wavelength 1, length 3 and index 2.\<close>

theorem homogeneous_layer_diagonal_witness:
  "(0::real) < 1
   \<and> (\<exists>P. homogeneous_layer 1 3 2 0 = Returns P
           \<and> P = Mat (exp (\<i> * (of_real (2 * pi / 1 * 2) - \<i> * of_real (0 / 2)) * of_real 3))
                     0 0
                     (exp (- \<i> * (of_real (2 * pi / 1 * 2) - \<i> * of_real (0 / 2)) * of_real 3))
           \<and> m01 P = 0 \<and> m10 P = 0
           \<and> cmod (m00 P) = 1 \<and> cmod (m11 P) = 1)"
proof -
  have h: "(0::real) < 1" by simp
  show ?thesis
    using h homogeneous_layer_diagonal [OF h, of 3 2 0] by simp
qed

text \<open>
  Claim C6, as the code has it. \<open>index_step\<close> never signals an error. When
  \<open>n1 * n2 > 0\<close> it returns the matrix \<open>[[a, b], [b, a]]\<close> with
  \<open>a = (n1 + n2) / (2 sqrt (n1 n2))\<close> and \<open>b = (n1 - n2) / (2 sqrt (n1 n2))\<close>; when
  \<open>n1 * n2 \<le> 0\<close> it returns, silently, a matrix of entries that are NaN or infinite.
\<close>

theorem index_step_outcome:
  "index_step n1 n2 =
     (if 0 < n1 * n2
      then Returns (Mat (of_real ((n1 + n2) / (2 * sqrt (n1 * n2)))) (of_real ((n1 - n2) / (2 * sqrt (n1 * n2))))
                        (of_real ((n1 - n2) / (2 * sqrt (n1 * n2)))) (of_real ((n1 + n2) / (2 * sqrt (n1 * n2)))))
      else NonFinite)"
  by (simp add: index_step_def double_sqrt_def double_div_def and_then_def not_less)

text \<open>
  Claim C6 as stated asks for the error \<open>InvalidRefractiveIndexProduct\<close> whenever
  \<open>n1 * n2 \<le> 0\<close>. At \<open>n1 = -1\<close>, \<open>n2 = 1\<close> the square root of \<open>-1\<close> is a NaN, and
  the matrix built from it is returned.
\<close>

theorem index_step_counterexample:
  "(- 1) * 1 \<le> (0::real)
   \<and> index_step (- 1) 1 = NonFinite
   \<and> index_step (- 1) 1 \<noteq> Raised InvalidRefractiveIndexProduct"
  by (simp add: index_step_def double_sqrt_def and_then_def)

section \<open>Scattering coefficients\<close>

text \<open>
  Claim C7, as the code has it. \<open>scattering_coefficients_db\<close> never signals an error.
  When \<open>S[0][0] \<noteq> 0\<close> it returns \<open>R = |S[1][0] / S[0][0]|\<^sup>2\<close> and
  \<open>T = |1 / S[0][0]|\<^sup>2\<close>; when \<open>S[0][0] = 0\<close> the two divisions by zero are carried
  out and the reflection and transmission it returns are infinite or NaN.
\<close>

theorem scattering_coefficients_db_outcome:
  "scattering_coefficients_db S =
     (if m00 S = 0 then NonFinite
      else Returns ((cmod (m10 S / m00 S))\<^sup>2, (cmod (1 / m00 S))\<^sup>2))"
  by (simp add: scattering_coefficients_db_def complex_div_def and_then_def Let_def)

text \<open>
  Claim C7 as stated asks for the error \<open>SingularScatteringMatrix\<close> when
  \<open>S[0][0] = 0\<close>. For \<open>S = [[0, 1], [1, 0]]\<close> no error is signalled.
\<close>

theorem scattering_coefficients_db_counterexample:
  "m00 (Mat 0 1 1 0) = 0
   \<and> scattering_coefficients_db (Mat 0 1 1 0) = NonFinite
   \<and> scattering_coefficients_db (Mat 0 1 1 0) \<noteq> Raised SingularScatteringMatrix"
  by (simp add: scattering_coefficients_db_def complex_div_def and_then_def)

lemma scattering_coefficients_db_identity:
  "scattering_coefficients_db identity = Returns (0, 1)"
  by (simp add: scattering_coefficients_db_def complex_div_def and_then_def identity_def)

lemma scattering_coefficients_db_no_error: "scattering_coefficients_db S \<noteq> Raised e"
  by (simp add: scattering_coefficients_db_def complex_div_def and_then_def Let_def)

section \<open>Bragg grating\<close>

lemma Bragg_fields:
  "bragg_period (Bragg period duty_cycle N) = period"
  "bragg_duty_cycle (Bragg period duty_cycle N) = duty_cycle"
  "bragg_N (Bragg period duty_cycle N) = N"
  by (simp_all add: Bragg_def)

text \<open>The period matrix is returned, finite or not: nothing on the way throws.\<close>

lemma and_then_cases:
  "and_then x f = NonFinite \<or> (\<exists>v. and_then x f = Returns v)"
  if "x = NonFinite \<or> (\<exists>v. x = Returns v)"
    and "\<And>v. f v = NonFinite \<or> (\<exists>u. f v = Returns u)"
proof (cases x)
  case (Returns v)
  then show ?thesis
    using that(2) [of v] by (simp add: and_then_def)
qed (use that(1) in \<open>simp_all add: and_then_def\<close>)

lemma homogeneous_layer_cases:
  "homogeneous_layer wavelength len neff loss = NonFinite
   \<or> (\<exists>P. homogeneous_layer wavelength len neff loss = Returns P)"
  by (simp add: homogeneous_layer_def beta_def double_div_def and_then_def Let_def)

lemma index_step_cases:
  "index_step n1 n2 = NonFinite \<or> (\<exists>M. index_step n1 n2 = Returns M)"
  by (simp add: index_step_def double_sqrt_def double_div_def and_then_def)

lemma transfer_matrix_cases:
  "transfer_matrix g wavelength n1 n2 loss = NonFinite
   \<or> (\<exists>Tp. transfer_matrix g wavelength n1 n2 loss = Returns Tp)"
  unfolding transfer_matrix_def Let_def
  by (intro and_then_cases homogeneous_layer_cases index_step_cases) simp

lemma size_t_of_double_zero: "size_t_of_double 0 = Returns 0"
  by (simp add: size_t_of_double_def)

lemma scattering_matrix_zero_periods:
  "scattering_matrix (Bragg period duty_cycle 0) wavelength n1 n2 loss = Returns identity"
  using transfer_matrix_cases [of "Bragg period duty_cycle 0" wavelength n1 n2 loss]
  by (auto simp: scattering_matrix_def Bragg_def size_t_of_double_zero and_then_def
      matrix_power_def matrix_power_non_finite_def)

text \<open>
  Claim C2. For every Bragg grating constructed with \<open>N = 0\<close> (any period and any duty
  cycle) and every wavelength, \<open>n1\<close>, \<open>n2\<close> and loss with \<open>n1 * n2 > 0\<close>,
  \<open>scattering_coefficients\<close> reports the transmission \<open>T = 1\<close> and the reflection
  \<open>R = 0\<close>. The pair it returns is \<open>(R, T)\<close>. The condition on \<open>n1 * n2\<close> is the
  claim's; the proof does not call on it, since \<open>matrix_power\<close> does not read the
  period matrix when \<open>N = 0\<close>.
\<close>

theorem zero_periods_identity_scattering:
  assumes "0 < n1 * n2"
  shows "scattering_coefficients (Bragg period duty_cycle 0) wavelength n1 n2 loss = Returns (0, 1)"
  by (simp add: scattering_coefficients_def scattering_matrix_zero_periods and_then_def
      scattering_coefficients_db_identity)

text \<open>A grating of period 1 and duty cycle 1/2, at wavelength 1 with indices 2 and 1.\<close>

theorem zero_periods_identity_scattering_witness:
  "(0::real) < 2 * 1
   \<and> scattering_coefficients (Bragg 1 (1 / 2) 0) 1 2 1 0 = Returns (0, 1)"
proof -
  have h: "(0::real) < 2 * 1" by simp
  show ?thesis
    using h zero_periods_identity_scattering [OF h, of 1 "1 / 2" 1 0] by simp
qed

text \<open>
  Claim C3. The claim gives \<open>scattering_coefficients\<close> four outputs, \<open>R\<close>, \<open>T\<close> and the
  two phases \<open>arg (S[1][0] / S[0][0])\<close> and \<open>arg (1 / S[0][0])\<close>, and the driver
  (tmm.cc) binds four values to the call. \<^verbatim>\<open>Bragg::scattering_coefficients\<close> returns
  \<^verbatim>\<open>std::tuple<double, double>\<close>: for every evaluation the whole result is the pair
  \<open>(R, T)\<close>, with \<open>R = |S[1][0] / S[0][0]|\<^sup>2\<close> and \<open>T = |1 / S[0][0]|\<^sup>2\<close> when
  \<open>S[0][0] \<noteq> 0\<close>, and no phase is computed.
\<close>

theorem scattering_coefficients_returns_R_T:
  "scattering_coefficients g wavelength n1 n2 loss =
     and_then (scattering_matrix g wavelength n1 n2 loss)
       (\<lambda>S. if m00 S = 0 then NonFinite
            else Returns ((cmod (m10 S / m00 S))\<^sup>2, (cmod (1 / m00 S))\<^sup>2))"
proof -
  have "scattering_coefficients_db =
      (\<lambda>S. if m00 S = 0 then NonFinite
           else Returns ((cmod (m10 S / m00 S))\<^sup>2, (cmod (1 / m00 S))\<^sup>2))"
    by (rule ext)
       (simp add: scattering_coefficients_db_def complex_div_def and_then_def Let_def)
  then show ?thesis
    by (simp add: scattering_coefficients_def)
qed

lemma scattering_matrix_no_error: "scattering_matrix g wavelength n1 n2 loss \<noteq> Raised e"
  using transfer_matrix_cases [of g wavelength n1 n2 loss]
  by (auto simp: scattering_matrix_def and_then_def size_t_of_double_def
      matrix_power_non_finite_def split: if_splits)

lemma scattering_coefficients_no_error:
  "scattering_coefficients g wavelength n1 n2 loss \<noteq> Raised e"
  using scattering_matrix_no_error [of g wavelength n1 n2 loss e]
  by (cases "scattering_matrix g wavelength n1 n2 loss")
     (simp_all add: scattering_coefficients_def and_then_def scattering_coefficients_db_no_error)

lemma unat_floor_size_t:
  fixes x :: real
  assumes "0 \<le> x" and "x < 2 ^ 64"
  shows "unat (word_of_int \<lfloor>x\<rfloor> :: 64 word) = nat \<lfloor>x\<rfloor>"
proof -
  have lo: "0 \<le> \<lfloor>x\<rfloor>"
    using assms by simp
  have "of_int \<lfloor>x\<rfloor> < (2 :: real) ^ 64"
    using assms of_int_floor_le [of x] by linarith
  then have hi: "\<lfloor>x\<rfloor> < 2 ^ 64"
    by simp
  from lo hi have "nat \<lfloor>x\<rfloor> < 2 ^ 64"
    by (simp add: nat_less_iff)
  then have "unat (of_nat (nat \<lfloor>x\<rfloor>) :: 64 word) = nat \<lfloor>x\<rfloor>"
    by (rule unat_size_t)
  with lo show ?thesis by simp
qed

lemma scattering_matrix_finite:
  assumes "0 \<le> bragg_N g" and "bragg_N g < 2 ^ 64"
    and "transfer_matrix g wavelength n1 n2 loss = Returns Tp"
  shows "scattering_matrix g wavelength n1 n2 loss = Returns (mpow Tp (nat \<lfloor>bragg_N g\<rfloor>))"
  using assms
  by (simp add: scattering_matrix_def size_t_of_double_def and_then_def matrix_power_mpow
      unat_floor_size_t)

text \<open>
  Claim C8, as the code has it. Neither \<open>scattering_matrix\<close> nor
  \<open>scattering_coefficients\<close> raises \<open>InvalidPeriodCount\<close>, or any error, for any
  period count \<open>N\<close>: \<open>N\<close> is stored unchecked and converted to \<^verbatim>\<open>size_t\<close> by
  truncation. For \<open>0 \<le> N < 2\<^sup>6\<^sup>4\<close> and a finite period matrix \<open>Tp\<close> the scattering
  matrix is \<open>Tp\<close> to the power \<open>\<lfloor>N\<rfloor>\<close>: a period count that is not integer-valued is
  evaluated as its integer part, and a non-negative integer-valued one as itself.
\<close>

theorem scattering_matrix_truncates_period_count:
  "scattering_matrix g wavelength n1 n2 loss \<noteq> Raised e
   \<and> scattering_coefficients g wavelength n1 n2 loss \<noteq> Raised e
   \<and> (0 \<le> bragg_N g \<and> bragg_N g < 2 ^ 64
        \<and> transfer_matrix g wavelength n1 n2 loss = Returns Tp
      \<longrightarrow> scattering_matrix g wavelength n1 n2 loss = Returns (mpow Tp (nat \<lfloor>bragg_N g\<rfloor>)))"
  using scattering_matrix_no_error scattering_coefficients_no_error scattering_matrix_finite
  by blast

text \<open>
  A grating of period 0 between equal indices: both layers and both index steps are the
  identity, and so is the period matrix.
\<close>

lemma transfer_matrix_trivial: "transfer_matrix (Bragg 0 0 N) 1 1 1 0 = Returns identity"
  by (simp add: transfer_matrix_def Bragg_fields homogeneous_layer_def beta_def index_step_def
      double_div_def double_sqrt_def and_then_def Let_def multiply_def identity_def
      zero_complex.code [symmetric])

lemma floor_five_halves: "nat \<lfloor>5 / 2 :: real\<rfloor> = 2"
  by simp

theorem scattering_matrix_truncates_period_count_witness:
  "scattering_matrix (Bragg 0 0 (5 / 2)) 1 1 1 0 \<noteq> Raised InvalidPeriodCount
   \<and> scattering_coefficients (Bragg 0 0 (5 / 2)) 1 1 1 0 \<noteq> Raised InvalidPeriodCount
   \<and> (0::real) \<le> 5 / 2 \<and> (5 / 2 :: real) < 2 ^ 64
   \<and> transfer_matrix (Bragg 0 0 (5 / 2)) 1 1 1 0 = Returns identity
   \<and> scattering_matrix (Bragg 0 0 (5 / 2)) 1 1 1 0 = Returns (mpow identity 2)"
  using scattering_matrix_truncates_period_count
      [of "Bragg 0 0 (5 / 2)" 1 1 1 0 InvalidPeriodCount identity]
  by (simp add: transfer_matrix_trivial Bragg_fields floor_five_halves)

lemma five_halves_fractional: "(5 / 2 :: real) \<notin> \<int>"
proof
  assume "(5 / 2 :: real) \<in> \<int>"
  then obtain k :: int where "(5 / 2 :: real) = of_int k" by (auto elim: Ints_cases)
  then have "(5 :: real) = of_int (2 * k)" by simp
  then have "(5 :: int) = 2 * k" by (simp only: of_int_eq_iff [symmetric] of_int_numeral)
  then show False by presburger
qed

text \<open>
  Claim C8 as stated asks for the error \<open>InvalidPeriodCount\<close> when \<open>N\<close> is not
  integer-valued. With \<open>N = 5/2\<close> the grating is evaluated as with \<open>N = 2\<close>, and
  both functions return.
\<close>

theorem fractional_period_count_counterexample:
  "(5 / 2 :: real) \<notin> \<int>
   \<and> scattering_matrix (Bragg 0 0 (5 / 2)) 1 1 1 0 = Returns identity
   \<and> scattering_matrix (Bragg 0 0 (5 / 2)) 1 1 1 0 \<noteq> Raised InvalidPeriodCount
   \<and> scattering_coefficients (Bragg 0 0 (5 / 2)) 1 1 1 0 = Returns (0, 1)
   \<and> scattering_coefficients (Bragg 0 0 (5 / 2)) 1 1 1 0 \<noteq> Raised InvalidPeriodCount"
proof -
  have "scattering_matrix (Bragg 0 0 (5 / 2)) 1 1 1 0 = Returns (mpow identity (nat \<lfloor>5 / 2 :: real\<rfloor>))"
    using scattering_matrix_finite [of "Bragg 0 0 (5 / 2)" 1 1 1 0 identity]
    by (simp add: Bragg_fields transfer_matrix_trivial)
  then have sm: "scattering_matrix (Bragg 0 0 (5 / 2)) 1 1 1 0 = Returns identity"
    by (simp only: floor_five_halves) (simp add: numeral_2_eq_2 multiply_identity_left)
  then show ?thesis
    using five_halves_fractional
    by (simp add: scattering_coefficients_def and_then_def scattering_coefficients_db_identity)
qed

section \<open>Compact model library\<close>

text \<open>The loop of a Taylor model, as a sum: by induction along the loop.\<close>

lemma taylor_loop_minus:
  "taylor_loop op cs dx i y = y - (\<Sum>k = i..<length cs. cs ! k * dx ^ k)"
  if "op = (\<lambda>y z. y - z)"
  using that
proof (induction op cs dx i y rule: taylor_loop.induct)
  case (1 op cs dx i y)
  show ?case
  proof (cases "i < length cs")
    case True
    then have "taylor_loop op cs dx i y = taylor_loop op cs dx (i + 1) (op y (cs ! i * dx ^ i))"
      by (subst taylor_loop.simps) simp
    also have "\<dots> = op y (cs ! i * dx ^ i) - (\<Sum>k = i + 1..<length cs. cs ! k * dx ^ k)"
      using True "1.prems" by (rule "1.IH")
    also have "\<dots> = y - (\<Sum>k = i..<length cs. cs ! k * dx ^ k)"
      using True "1.prems" by (simp add: sum.atLeast_Suc_lessThan)
    finally show ?thesis .
  next
    case False
    then show ?thesis
      by (subst taylor_loop.simps) simp
  qed
qed

lemma taylor_loop_plus:
  "taylor_loop op cs dx i y = y + (\<Sum>k = i..<length cs. cs ! k * dx ^ k)"
  if "op = (\<lambda>y z. y + z)"
  using that
proof (induction op cs dx i y rule: taylor_loop.induct)
  case (1 op cs dx i y)
  show ?case
  proof (cases "i < length cs")
    case True
    then have "taylor_loop op cs dx i y = taylor_loop op cs dx (i + 1) (op y (cs ! i * dx ^ i))"
      by (subst taylor_loop.simps) simp
    also have "\<dots> = op y (cs ! i * dx ^ i) + (\<Sum>k = i + 1..<length cs. cs ! k * dx ^ k)"
      using True "1.prems" by (rule "1.IH")
    also have "\<dots> = y + (\<Sum>k = i..<length cs. cs ! k * dx ^ k)"
      using True "1.prems" by (simp add: sum.atLeast_Suc_lessThan)
    finally show ?thesis .
  next
    case False
    then show ?thesis
      by (subst taylor_loop.simps) simp
  qed
qed

lemma taylor_eval_nonempty:
  "coeffs t \<noteq> [] \<Longrightarrow>
     taylor_eval op t x = Returns (taylor_loop op (coeffs t) (x - x0 t) 1 (coeffs t ! 0))"
  by (cases "coeffs t") (simp_all add: taylor_eval_def Let_def)

lemma wavelength_model_t_closed_form:
  "coeffs t \<noteq> [] \<Longrightarrow> wavelength_model_t t l = Returns (wavelength_term t l)"
  using taylor_eval_nonempty [of t "\<lambda>y z. y - z" l]
  by (simp add: wavelength_model_t_def wavelength_term_def taylor_loop_minus)

lemma width_model_t_closed_form:
  "coeffs t \<noteq> [] \<Longrightarrow> width_model_t t w = Returns (width_term t w)"
  using taylor_eval_nonempty [of t "\<lambda>y z. y + z" w]
  by (simp add: width_model_t_def width_term_def taylor_loop_plus)

text \<open>
  Claim C4, as the code has it. Where its reads are in range, the evaluation takes the
  base first (the constant if present, replaced by \<open>samples[i]\<close> if sampled, and 0 if
  neither), then adds the value of the wavelength model,
  \<open>coeffs[0] - \<Sum>\<^bsub>k \<ge> 1\<^esub> coeffs[k] (\<lambda> - \<lambda>0)^k\<close>, then adds the value of the width model,
  \<open>coeffs[0] + \<Sum>\<^bsub>k \<ge> 1\<^esub> coeffs[k] (w - w0)^k\<close>. The coefficient of order zero of the
  wavelength model is added whether or not a constant or a sample is present.
\<close>

theorem cml_eval_closed_form:
  assumes "reads_in_range m i"
  shows "cml_eval m l w i =
           Returns ((case sampled m of
                       Some xs \<Rightarrow> xs ! i
                     | None \<Rightarrow> (case cml_constant m of Some c \<Rightarrow> c | None \<Rightarrow> 0))
                    + (case wavelength_model m of Some t \<Rightarrow> wavelength_term t l | None \<Rightarrow> 0)
                    + (case width_model m of Some t \<Rightarrow> width_term t w | None \<Rightarrow> 0))"
  using assms
  by (auto simp: cml_eval_def reads_in_range_def vector_at_def and_then_def Let_def
      wavelength_model_t_closed_form width_model_t_closed_form split: option.splits)

text \<open>
  One sample 5, the wavelength model \<open>2 - 3 (\<lambda> - 1)\<close> at \<open>\<lambda> = 2\<close> and the width model
  \<open>0 + 1 (w - 0)\<close> at \<open>w = 3\<close>: \<open>5 + (2 - 3) + 3 = 7\<close>.
\<close>

theorem cml_eval_closed_form_witness:
  "reads_in_range \<lparr>cml_constant = None, sampled = Some [5],
       wavelength_model = Some \<lparr>x0 = 1, coeffs = [2, 3]\<rparr>,
       width_model = Some \<lparr>x0 = 0, coeffs = [0, 1]\<rparr>\<rparr> 0
   \<and> cml_eval \<lparr>cml_constant = None, sampled = Some [5],
       wavelength_model = Some \<lparr>x0 = 1, coeffs = [2, 3]\<rparr>,
       width_model = Some \<lparr>x0 = 0, coeffs = [0, 1]\<rparr>\<rparr> 2 3 0 = Returns 7"
proof -
  let ?m = "\<lparr>cml_constant = None, sampled = Some [5],
       wavelength_model = Some \<lparr>x0 = 1, coeffs = [2, 3]\<rparr>,
       width_model = Some \<lparr>x0 = 0, coeffs = [0, 1]\<rparr>\<rparr>"
  have h: "reads_in_range ?m 0"
    by (simp add: reads_in_range_def)
  show ?thesis
    using h cml_eval_closed_form [OF h, of 2 3]
    by (simp add: wavelength_term_def width_term_def)
qed

text \<open>
  Claim C4 as stated keeps the coefficient of order zero of the wavelength model out
  when a constant is present. For the constant 1 with the wavelength model of the single
  coefficient 2 the specification's reading gives 1, and the code returns \<open>1 + 2 = 3\<close>.
\<close>

theorem wavelength_base_counterexample:
  "cml_eval \<lparr>cml_constant = Some 1, sampled = None,
       wavelength_model = Some \<lparr>x0 = 0, coeffs = [2]\<rparr>, width_model = None\<rparr> 0 0 0 = Returns 3
   \<and> spec_evaluate \<lparr>cml_constant = Some 1, sampled = None,
       wavelength_model = Some \<lparr>x0 = 0, coeffs = [2]\<rparr>, width_model = None\<rparr> 0 0 0 = 1
   \<and> cml_eval \<lparr>cml_constant = Some 1, sampled = None,
       wavelength_model = Some \<lparr>x0 = 0, coeffs = [2]\<rparr>, width_model = None\<rparr> 0 0 0
     \<noteq> Returns (spec_evaluate \<lparr>cml_constant = Some 1, sampled = None,
       wavelength_model = Some \<lparr>x0 = 0, coeffs = [2]\<rparr>, width_model = None\<rparr> 0 0 0)"
  by (simp add: cml_eval_def and_then_def wavelength_model_t_def taylor_eval_def
      taylor_loop.simps spec_evaluate_def)

text \<open>
  Claim C9, as the code has it. For a sampled-only model with the sequence \<open>samples\<close>:
  if the index \<open>i\<close> is within the sequence, the evaluation returns \<open>samples[i]\<close>; if it
  is beyond, no error is raised: the vector is read past its end without a check, which
  is undefined behaviour.
\<close>

theorem sampled_only_lookup:
  "cml_eval \<lparr>cml_constant = None, sampled = Some samples,
       wavelength_model = None, width_model = None\<rparr> l w i
     = (if i < length samples then Returns (samples ! i) else Undefined)"
  by (simp add: cml_eval_def vector_at_def and_then_def)

text \<open>
  Claim C9 as stated asks for the error \<open>SampleIndexOutOfRange\<close> beyond the sequence.
  With the single sample 2 and the index 5 no error is raised.
\<close>

theorem sampled_index_counterexample:
  "length [2 :: real] < 5
   \<and> cml_eval \<lparr>cml_constant = None, sampled = Some [2],
        wavelength_model = None, width_model = None\<rparr> 0 0 5 = Undefined
   \<and> cml_eval \<lparr>cml_constant = None, sampled = Some [2],
        wavelength_model = None, width_model = None\<rparr> 0 0 5 \<noteq> Raised SampleIndexOutOfRange"
  by (simp add: cml_eval_def vector_at_def and_then_def)

text \<open>
  Claim C10. For every wavelength, width and sample index, a model in which none of
  the four representations is present evaluates to exactly \<open>0.0\<close>.
\<close>

theorem empty_model_is_zero:
  "cml_eval \<lparr>cml_constant = None, sampled = None,
       wavelength_model = None, width_model = None\<rparr> l w i = Returns 0"
  by (simp add: cml_eval_def and_then_def)

end
